theory Spec2Isabelle
  imports Complex_Main
begin

section \<open>Python string operations used by the plugin\<close>

text \<open>
  A Python \<open>str\<close> is modelled as a \<open>string\<close>, one \<open>char\<close> per code point, for text
  whose code points lie in U+0000..U+00FF. The operations below follow CPython's
  \<open>str\<close> methods on that range.
\<close>

definition isspace :: "char \<Rightarrow> bool" where
  \<comment> \<open>\<open>str.isspace\<close> on one code point: TAB..CR, FS..US, SPACE, NEL, NBSP.\<close>
  "isspace c =
     (let n = (of_char c :: nat)
      in (9 \<le> n \<and> n \<le> 13) \<or> (28 \<le> n \<and> n \<le> 32) \<or> n = 133 \<or> n = 160)"

definition strip :: "string \<Rightarrow> string" where
  \<comment> \<open>\<open>s.strip()\<close>: leading and trailing whitespace removed.\<close>
  "strip s = rev (dropWhile isspace (rev (dropWhile isspace s)))"

definition lower_char :: "char \<Rightarrow> char" where
  \<comment> \<open>\<open>A..Z\<close> and the Latin-1 capitals U+00C0..U+00DE (not the sign U+00D7) move up by 32.\<close>
  "lower_char c =
     (let n = (of_char c :: nat)
      in if (65 \<le> n \<and> n \<le> 90) \<or> (192 \<le> n \<and> n \<le> 222 \<and> n \<noteq> 215)
         then char_of (n + 32) else c)"

definition lower :: "string \<Rightarrow> string" where
  \<comment> \<open>\<open>s.lower()\<close>\<close>
  "lower s = map lower_char s"

definition is_linebreak :: "char \<Rightarrow> bool" where
  \<comment> \<open>The line boundaries of \<open>str.splitlines\<close>: LF, VT, FF, CR, FS, GS, RS, NEL.\<close>
  "is_linebreak c =
     (let n = (of_char c :: nat)
      in (10 \<le> n \<and> n \<le> 13) \<or> (28 \<le> n \<and> n \<le> 30) \<or> n = 133)"

fun splitlines_from :: "string \<Rightarrow> string \<Rightarrow> string list" where
  \<comment> \<open>The first argument is the line read so far. CR LF is one boundary; a last line
      with no boundary after it is kept only when it is not empty.\<close>
  "splitlines_from cur [] = (if cur = [] then [] else [cur])"
| "splitlines_from cur (c # cs) =
     (if c = CHR 0x0D \<and> (case cs of [] \<Rightarrow> False | d # _ \<Rightarrow> d = CHR 0x0A)
      then cur # splitlines_from [] (tl cs)
      else if is_linebreak c then cur # splitlines_from [] cs
      else splitlines_from (cur @ [c]) cs)"

definition splitlines :: "string \<Rightarrow> string list" where
  \<comment> \<open>\<open>s.splitlines()\<close>\<close>
  "splitlines s = splitlines_from [] s"

definition split1 :: "char \<Rightarrow> string \<Rightarrow> string list" where
  \<comment> \<open>\<open>s.split(sep, 1)\<close> for a one-character separator: two parts, cut at the first
      separator, or the whole string alone when there is none.\<close>
  "split1 sep s =
     (if sep \<in> set s
      then [takeWhile (\<lambda>c. c \<noteq> sep) s, tl (dropWhile (\<lambda>c. c \<noteq> sep) s)]
      else [s])"

definition removeprefix :: "string \<Rightarrow> string \<Rightarrow> string" where
  \<comment> \<open>\<open>s.removeprefix(p)\<close>\<close>
  "removeprefix p s = (if take (length p) s = p then drop (length p) s else s)"

fun contains :: "string \<Rightarrow> string \<Rightarrow> bool" where
  \<comment> \<open>\<open>contains s t\<close> is Python's \<open>s in t\<close>: \<open>s\<close> occurs in \<open>t\<close> as a substring.\<close>
  "contains s [] = (s = [])"
| "contains s (c # cs) = (take (length s) (c # cs) = s \<or> contains s cs)"

datatype error = ValueError | TypeError

definition unpack2 :: "string list \<Rightarrow> error + (string \<times> string)" where
  \<comment> \<open>The tuple assignment \<open>a, b = parts\<close>: any length but two raises ValueError.\<close>
  "unpack2 parts = (case parts of [a, b] \<Rightarrow> Inr (a, b) | _ \<Rightarrow> Inl ValueError)"

section \<open>Device records\<close>

record BluetoothDevice =
  dev_id :: string
  name :: string
  icon :: "string option"
  connected :: bool

text \<open>
  \<open>runDetachedProcess(cmdln, workdir)\<close> starts a process and does not wait for it. The
  model records each launch, in order, in a log of (command line, working directory);
  the launch itself is taken not to raise.
\<close>

type_synonym process = "string list \<times> string"

definition runDetachedProcess :: "string list \<Rightarrow> string \<Rightarrow> process list \<Rightarrow> process list" where
  "runDetachedProcess cmdln workdir procs = procs @ [(cmdln, workdir)]"

definition disconnect :: "BluetoothDevice \<Rightarrow> string \<Rightarrow> process list \<Rightarrow> BluetoothDevice \<times> process list" where
  "disconnect self workingDir procs =
     (if \<not> connected self then (self, procs)
      else (self\<lparr>connected := False\<rparr>,
            runDetachedProcess [''bluetoothctl'', ''disconnect'', dev_id self] workingDir procs))"

definition connect :: "BluetoothDevice \<Rightarrow> string \<Rightarrow> process list \<Rightarrow> BluetoothDevice \<times> process list" where
  "connect self workingDir procs =
     (if connected self then (self, procs)
      else (self\<lparr>connected := True\<rparr>,
            runDetachedProcess [''bluetoothctl'', ''connect'', dev_id self] workingDir procs))"

definition getIcon :: "BluetoothDevice \<Rightarrow> string" where
  \<comment> \<open>In the last branch \<open>icon\<close> is not \<open>None\<close>: the first test has excluded it.\<close>
  "getIcon self =
     (if icon self = None \<or> connected self = False
      then (if connected self then ''xdg:bluetooth-active'' else ''xdg:bluetooth-disabled'')
      else (case icon self of Some i \<Rightarrow> ''xdg:'' @ i
            | None \<Rightarrow> (if connected self then ''xdg:bluetooth-active'' else ''xdg:bluetooth-disabled'')))"

text \<open>
  An action's callable is a closure over the device and the plugin directory; it is
  modelled by the method it calls and the directory it passes.
\<close>

datatype callable = CallConnect string | CallDisconnect string

record Action =
  action_id :: string
  action_text :: string
  action_callable :: callable

record StandardItem =
  item_id :: string
  item_text :: string
  item_subtext :: string
  item_iconUrls :: "string list"
  item_actions :: "Action list"

record RankItem =
  rank_item :: StandardItem
  rank_score :: real

text \<open>The parameter \<open>here\<close> stands for \<open>os.path.dirname(__file__)\<close>.\<close>

definition item :: "string \<Rightarrow> BluetoothDevice \<Rightarrow> StandardItem" where
  "item here self =
     \<lparr> item_id = dev_id self,
       item_text = (if \<not> connected self then ''Connect'' else ''Disconnect'') @ '' '' @ name self,
       item_subtext = dev_id self,
       item_iconUrls =
         [getIcon self,
          here @ (if connected self then ''/bluetooth-active.svg'' else ''/bluetooth-disabled.svg'')],
       item_actions =
         [if \<not> connected self
          then \<lparr> action_id = ''connect'', action_text = ''Connect'',
                 action_callable = CallConnect here \<rparr>
          else \<lparr> action_id = ''disconnect'', action_text = ''Disconnect'',
                 action_callable = CallDisconnect here \<rparr>] \<rparr>"

definition rankItem :: "string \<Rightarrow> BluetoothDevice \<Rightarrow> RankItem" where
  "rankItem here self =
     \<lparr> rank_item = item here self, rank_score = (if connected self then 0.0 else 1.0) \<rparr>"

section \<open>The controller\<close>

text \<open>
  The external tool is modelled by what it prints: the text of
  \<open>bluetoothctl info <id>\<close> for each id, and the text of \<open>bluetoothctl devices\<close> and of
  \<open>bluetoothctl devices Connected\<close>, already decoded. A tool that cannot be started and
  output that is not UTF-8 are outside the model: it begins where \<open>subprocess.run\<close> and
  \<open>decode\<close> have returned.
\<close>

record bluetoothctl =
  info_stdout :: "string \<Rightarrow> string"
  devices_stdout :: string
  devices_connected_stdout :: string

record BluetoothControl =
  currentWorkingDir :: string

text \<open>
  The loop of \<open>deviceInfo\<close> carries the three locals \<open>name\<close>, \<open>connected\<close> and \<open>icon\<close>.
  One pass of its body is \<open>deviceInfo_line\<close>; the unpacking of the split raises when the
  line has no separator, and the exception leaves the loop and the function.
\<close>

type_synonym info_locals = "string \<times> bool \<times> string option"

definition deviceInfo_line :: "info_locals \<Rightarrow> string \<Rightarrow> error + info_locals" where
  \<comment> \<open>\<open>nm\<close>, \<open>conn\<close>, \<open>ic\<close> are the locals \<open>name\<close>, \<open>connected\<close>, \<open>icon\<close>.\<close>
  "deviceInfo_line locals x =
     (case locals of (nm, conn, ic) \<Rightarrow>
        (let currentLine = strip x
         in case unpack2 (split1 CHR '':'' currentLine) of
              Inl e \<Rightarrow> Inl e
            | Inr (key0, rawValue) \<Rightarrow>
                (let key = lower (strip key0);
                     value = lower (strip rawValue)
                 in if key = ''name'' then Inr (strip rawValue, conn, ic)
                    else if key = ''connected'' then Inr (nm, value = ''yes'', ic)
                    else if key = ''icon'' then Inr (nm, conn, Some value)
                    else Inr (nm, conn, ic))))"

fun deviceInfo_loop :: "string list \<Rightarrow> info_locals \<Rightarrow> error + info_locals" where
  "deviceInfo_loop [] locals = Inr locals"
| "deviceInfo_loop (x # xs) locals =
     (case deviceInfo_line locals x of
        Inl e \<Rightarrow> Inl e
      | Inr locals' \<Rightarrow> deviceInfo_loop xs locals')"

definition deviceInfo :: "bluetoothctl \<Rightarrow> string \<Rightarrow> error + BluetoothDevice" where
  "deviceInfo env ident =
     (case deviceInfo_loop (splitlines (info_stdout env ident))
             (''Bluetooth Device '' @ ident, False, None) of
        Inl e \<Rightarrow> Inl e
      | Inr (nm, conn, ic) \<Rightarrow>
          Inr \<lparr> dev_id = ident, name = nm, icon = ic, connected = conn \<rparr>)"

fun listDevices_loop ::
  "bluetoothctl \<Rightarrow> string list \<Rightarrow> BluetoothDevice list \<Rightarrow> error + BluetoothDevice list" where
  "listDevices_loop env [] deviceList = Inr deviceList"
| "listDevices_loop env (x # xs) deviceList =
     (case unpack2 (split1 CHR '' '' (removeprefix ''Device '' x)) of
        Inl e \<Rightarrow> Inl e
      | Inr (ident, _) \<Rightarrow>
          (case deviceInfo env ident of
             Inl e \<Rightarrow> Inl e
           | Inr d \<Rightarrow> listDevices_loop env xs (deviceList @ [d])))"

definition listDevices :: "bluetoothctl \<Rightarrow> error + BluetoothDevice list" where
  "listDevices env = listDevices_loop env (splitlines (devices_stdout env)) []"

definition listConnectedDevices :: "bluetoothctl \<Rightarrow> error + BluetoothDevice list" where
  "listConnectedDevices env =
     listDevices_loop env (splitlines (devices_connected_stdout env)) []"

text \<open>
  The argument of \<open>connectDevice\<close> and \<open>disconnectDevice\<close> is any Python value: a
  device record, a string, or something else.
\<close>

datatype py_other = PyNone | PyInt int | PyBool bool | PyList "py_other list"

datatype btDevice = IsDevice BluetoothDevice | IsStr string | IsOther py_other

text \<open>
  Both operations return the argument as the call leaves it (a device record is updated
  in place) and the process log.
\<close>

definition disconnectDevice ::
  "BluetoothControl \<Rightarrow> btDevice \<Rightarrow> process list \<Rightarrow> error + (btDevice \<times> process list)" where
  "disconnectDevice self arg procs =
     (case arg of
        IsDevice d \<Rightarrow>
          (case disconnect d (currentWorkingDir self) procs of
             (d', procs') \<Rightarrow> Inr (IsDevice d', procs'))
      | IsStr s \<Rightarrow>
          Inr (IsStr s,
               runDetachedProcess [''bluetoothctl'', ''disconnect'', s]
                 (currentWorkingDir self) procs)
      | IsOther v \<Rightarrow> Inl TypeError)"

definition connectDevice ::
  "BluetoothControl \<Rightarrow> btDevice \<Rightarrow> process list \<Rightarrow> error + (btDevice \<times> process list)" where
  "connectDevice self arg procs =
     (case arg of
        IsDevice d \<Rightarrow>
          (case connect d (currentWorkingDir self) procs of
             (d', procs') \<Rightarrow> Inr (IsDevice d', procs'))
      | IsStr s \<Rightarrow>
          Inr (IsStr s,
               runDetachedProcess [''bluetoothctl'', ''connect'', s]
                 (currentWorkingDir self) procs)
      | IsOther v \<Rightarrow> Inl TypeError)"

section \<open>The query handler\<close>

record Query =
  trigger :: string
  query_string :: string

record Plugin =
  bluetoothControl :: BluetoothControl
  bluetoothDevices :: "BluetoothDevice list"

text \<open>
  \<open>updateIndexItems\<close> empties the cache before it lists the devices, so an exception
  of \<open>listDevices\<close> leaves the method with the cache empty. The result is the
  exception that leaves the method, if any, and the plugin as the call leaves it.
\<close>

definition updateIndexItems :: "bluetoothctl \<Rightarrow> Plugin \<Rightarrow> error option \<times> Plugin" where
  "updateIndexItems env self =
     (let self' = self\<lparr>bluetoothDevices := []\<rparr>
      in case listDevices env of
           Inl e \<Rightarrow> (Some e, self')
         | Inr devices \<Rightarrow>
             (None, self'\<lparr>bluetoothDevices := bluetoothDevices self' @ devices\<rparr>))"

fun handleGlobalQuery_loop ::
  "string \<Rightarrow> string \<Rightarrow> BluetoothDevice list \<Rightarrow> RankItem list \<Rightarrow> RankItem list" where
  "handleGlobalQuery_loop here s [] filtered = filtered"
| "handleGlobalQuery_loop here s (device # devices) filtered =
     handleGlobalQuery_loop here s devices
       (if s = [] \<or> contains s (lower (name device))
        then filtered @ [rankItem here device] else filtered)"

definition handleGlobalQuery :: "string \<Rightarrow> Plugin \<Rightarrow> Query \<Rightarrow> RankItem list" where
  "handleGlobalQuery here self query =
     (if trigger query = [] then []
      else handleGlobalQuery_loop here (lower (strip (query_string query)))
             (bluetoothDevices self) [])"

section \<open>Notions used to state the properties\<close>

text \<open>
  The key and the value that \<open>deviceInfo\<close> reads from one detail line: the text before
  and after the first colon of the stripped line, each stripped and lowercased, as the
  body of the loop computes them.
\<close>

definition line_key :: "string \<Rightarrow> string" where
  "line_key x = lower (strip (takeWhile (\<lambda>c. c \<noteq> CHR '':'') (strip x)))"

definition line_raw_value :: "string \<Rightarrow> string" where
  "line_raw_value x = tl (dropWhile (\<lambda>c. c \<noteq> CHR '':'') (strip x))"

definition line_value :: "string \<Rightarrow> string" where
  "line_value x = lower (strip (line_raw_value x))"

text \<open>
  What the last line with the key \<open>connected\<close> says, or the given default when no line
  has that key.
\<close>

definition last_connected :: "bool \<Rightarrow> string list \<Rightarrow> bool" where
  "last_connected c0 ls =
     (case filter (\<lambda>l. line_key l = ''connected'') ls of
        [] \<Rightarrow> c0
      | f # fs \<Rightarrow> line_value (last (f # fs)) = ''yes'')"

text \<open>
  A listing line \<open>Device <id> <rest>\<close>, and the listing text made of such lines, each
  ended by a line feed.
\<close>

definition device_line :: "string \<times> string \<Rightarrow> string" where
  "device_line e = ''Device '' @ fst e @ '' '' @ snd e"

definition listing_of :: "(string \<times> string) list \<Rightarrow> string" where
  "listing_of es = concat (map (\<lambda>e. device_line e @ [CHR 0x0A]) es)"

text \<open>
  Example inputs: a tool that prints the listing \<open>listing\<close> and the same detail text
  for every id, two device records, and a plugin that caches them.
\<close>

definition tool_printing :: "string \<Rightarrow> string \<Rightarrow> bluetoothctl" where
  "tool_printing listing detail =
     \<lparr> info_stdout = (\<lambda>ident. detail), devices_stdout = listing,
       devices_connected_stdout = listing \<rparr>"

definition headset :: BluetoothDevice where
  "headset = \<lparr> dev_id = ''AA:BB'', name = ''Foo Headset'', icon = Some ''audio-headset'',
               connected = True \<rparr>"

definition mouse :: BluetoothDevice where
  "mouse = \<lparr> dev_id = ''CC:DD'', name = ''Bar Mouse'', icon = Some ''input-mouse'',
             connected = False \<rparr>"

definition keyboard :: BluetoothDevice where
  "keyboard = \<lparr> dev_id = ''EE:FF'', name = ''Baz Keys'', icon = None, connected = True \<rparr>"

definition example_plugin :: Plugin where
  "example_plugin =
     \<lparr> bluetoothControl = \<lparr> currentWorkingDir = ''/plugin'' \<rparr>,
       bluetoothDevices = [headset, mouse, keyboard] \<rparr>"

section \<open>Facts about the string operations\<close>

lemma contains_iff: "contains s t \<longleftrightarrow> (\<exists>u v. t = u @ s @ v)"
proof (induction t)
  case Nil
  then show ?case by auto
next
  case (Cons c cs)
  note IH = Cons.IH
  have pre: "take (length s) (c # cs) = s \<longleftrightarrow> (\<exists>v. c # cs = s @ v)"
    by (metis append_eq_conv_conj)
  show ?case
  proof
    assume "contains s (c # cs)"
    then consider "take (length s) (c # cs) = s" | "contains s cs" by auto
    then show "\<exists>u v. c # cs = u @ s @ v"
    proof cases
      case 1
      then obtain v where "c # cs = s @ v" using pre by blast
      then have "c # cs = [] @ s @ v" by simp
      then show ?thesis by blast
    next
      case 2
      then obtain u v where "cs = u @ s @ v" using IH by blast
      then have "c # cs = (c # u) @ s @ v" by simp
      then show ?thesis by blast
    qed
  next
    assume "\<exists>u v. c # cs = u @ s @ v"
    then obtain u v where uv: "c # cs = u @ s @ v" by blast
    show "contains s (c # cs)"
    proof (cases u)
      case Nil
      then have "c # cs = s @ v" using uv by simp
      then have "take (length s) (c # cs) = s" using pre by blast
      then show ?thesis by simp
    next
      case (Cons a u')
      then have "cs = u' @ s @ v" using uv by simp
      then have "contains s cs" using IH by blast
      then show ?thesis by simp
    qed
  qed
qed

lemma lower_eq_Nil: "lower s = [] \<longleftrightarrow> s = []"
  by (simp add: lower_def)

lemma set_strip_subset: "set (strip s) \<subseteq> set s"
proof -
  have "set (strip s) = set (dropWhile isspace (rev (dropWhile isspace s)))"
    by (simp add: strip_def)
  also have "\<dots> \<subseteq> set (rev (dropWhile isspace s))"
    by (meson set_dropWhileD subsetI)
  also have "\<dots> \<subseteq> set s"
    using set_dropWhileD by fastforce
  finally show ?thesis .
qed

lemma in_set_dropWhile: "x \<in> set xs \<Longrightarrow> \<not> P x \<Longrightarrow> x \<in> set (dropWhile P xs)"
  by (induction xs) auto

lemma in_set_strip: "c \<in> set s \<Longrightarrow> \<not> isspace c \<Longrightarrow> c \<in> set (strip s)"
  by (simp add: strip_def in_set_dropWhile)

lemma colon_not_space: "\<not> isspace CHR '':''"
  by (simp add: isspace_def)

lemma colon_in_strip: "CHR '':'' \<in> set (strip x) \<longleftrightarrow> CHR '':'' \<in> set x"
  using set_strip_subset [of x] in_set_strip [of "CHR '':''" x] colon_not_space by blast

section \<open>The query handler as a filter\<close>

lemma handleGlobalQuery_loop_eq:
  "handleGlobalQuery_loop here s ds acc =
     acc @ map (rankItem here) (filter (\<lambda>d. s = [] \<or> contains s (lower (name d))) ds)"
  by (induction ds arbitrary: acc) auto

lemma handleGlobalQuery_eq:
  "trigger q \<noteq> [] \<Longrightarrow>
   handleGlobalQuery here p q =
     map (rankItem here)
       (filter (\<lambda>d. strip (query_string q) = [] \<or>
                     contains (lower (strip (query_string q))) (lower (name d)))
          (bluetoothDevices p))"
  by (simp add: handleGlobalQuery_def handleGlobalQuery_loop_eq lower_eq_Nil)

lemma item_id_rankItem: "item_id (rank_item (rankItem here d)) = dev_id d"
  by (simp add: rankItem_def item_def)

section \<open>The detail parser\<close>

lemma deviceInfo_line_no_separator:
  "CHR '':'' \<notin> set x \<Longrightarrow> deviceInfo_line locals x = Inl ValueError"
  by (cases locals) (simp add: deviceInfo_line_def split1_def unpack2_def colon_in_strip)

lemma deviceInfo_line_separator:
  "CHR '':'' \<in> set x \<Longrightarrow>
   deviceInfo_line (nm, conn, ic) x =
     Inr (if line_key x = ''name'' then (strip (line_raw_value x), conn, ic)
          else if line_key x = ''connected'' then (nm, line_value x = ''yes'', ic)
          else if line_key x = ''icon'' then (nm, conn, Some (line_value x))
          else (nm, conn, ic))"
  by (simp add: deviceInfo_line_def split1_def unpack2_def colon_in_strip
        line_key_def line_value_def line_raw_value_def Let_def)

lemma deviceInfo_line_error: "deviceInfo_line locals x = Inl e \<Longrightarrow> e = ValueError"
proof (cases "CHR '':'' \<in> set x")
  case True
  assume "deviceInfo_line locals x = Inl e"
  then show ?thesis using deviceInfo_line_separator [OF True] by (cases locals) auto
next
  case False
  assume "deviceInfo_line locals x = Inl e"
  then show ?thesis using deviceInfo_line_no_separator [OF False] by simp
qed

lemma deviceInfo_loop_raises:
  "l \<in> set ls \<Longrightarrow> CHR '':'' \<notin> set l \<Longrightarrow> deviceInfo_loop ls locals = Inl ValueError"
proof (induction ls arbitrary: locals)
  case Nil
  then show ?case by simp
next
  case (Cons x xs)
  show ?case
  proof (cases "deviceInfo_line locals x")
    case (Inl e)
    then show ?thesis using deviceInfo_line_error [OF Inl] by simp
  next
    case (Inr locals')
    then have "CHR '':'' \<in> set x"
      using deviceInfo_line_no_separator [of x locals] by auto
    then have "l \<in> set xs" using Cons.prems by auto
    then show ?thesis using Cons.IH Cons.prems(2) Inr by simp
  qed
qed

lemma last_connected_Cons:
  "last_connected c0 (x # xs) =
     last_connected (if line_key x = ''connected'' then line_value x = ''yes'' else c0) xs"
  by (simp add: last_connected_def split: list.splits)

lemma deviceInfo_loop_connected:
  "\<forall>l \<in> set ls. CHR '':'' \<in> set l \<Longrightarrow>
   \<exists>nm' ic'. deviceInfo_loop ls (nm, conn, ic) = Inr (nm', last_connected conn ls, ic')"
proof (induction ls arbitrary: nm conn ic)
  case Nil
  then show ?case by (simp add: last_connected_def)
next
  case (Cons x xs)
  have x: "CHR '':'' \<in> set x" and xs: "\<forall>l \<in> set xs. CHR '':'' \<in> set l"
    using Cons.prems by auto
  obtain nm1 ic1 where step:
    "deviceInfo_line (nm, conn, ic) x =
       Inr (nm1, (if line_key x = ''connected'' then line_value x = ''yes'' else conn), ic1)"
    using deviceInfo_line_separator [OF x, of nm conn ic] by (auto split: if_splits)
  show ?case
    using Cons.IH [OF xs, of nm1 "if line_key x = ''connected'' then line_value x = ''yes'' else conn" ic1]
    by (simp only: deviceInfo_loop.simps step sum.case last_connected_Cons)
qed

section \<open>Icons, scores and actions of one device\<close>

text \<open>
  C10. A disconnected device gets \<open>xdg:bluetooth-disabled\<close> whether or not it has a
  category icon; a connected device without a category icon gets
  \<open>xdg:bluetooth-active\<close>; the category icon is used only for a connected device that
  has one.
\<close>

theorem getIcon_by_state:
  "(\<not> connected d \<longrightarrow> getIcon d = ''xdg:bluetooth-disabled'') \<and>
   (connected d \<and> icon d = None \<longrightarrow> getIcon d = ''xdg:bluetooth-active'') \<and>
   (connected d \<and> icon d = Some i \<longrightarrow> getIcon d = ''xdg:'' @ i)"
  by (simp add: getIcon_def)

theorem getIcon_by_state_witness:
  "getIcon mouse = ''xdg:bluetooth-disabled'' \<and>
   getIcon keyboard = ''xdg:bluetooth-active'' \<and>
   getIcon headset = ''xdg:audio-headset''"
  using getIcon_by_state [of mouse] getIcon_by_state [of keyboard]
    getIcon_by_state [of headset "''audio-headset''"]
  by (simp add: mouse_def keyboard_def headset_def)

text \<open>
  C6. The score of a result is one of two constants chosen by the connected flag alone:
  0 for a connected device and 1 for a disconnected one, so a connected device scores
  lower; and every result of a query is the ranked item of a cached device, with that
  score.
\<close>

theorem rankItem_score:
  "rank_score (rankItem here d) = (if connected d then 0 else 1) \<and>
   (connected a \<and> \<not> connected b \<longrightarrow>
      rank_score (rankItem here a) < rank_score (rankItem here b)) \<and>
   (\<forall>r \<in> set (handleGlobalQuery here p q).
      \<exists>d \<in> set (bluetoothDevices p).
        r = rankItem here d \<and> rank_score r = (if connected d then 0 else 1))"
proof -
  have score: "\<And>x. rank_score (rankItem here x) = (if connected x then 0 else 1)"
    by (simp add: rankItem_def)
  have res: "\<forall>r \<in> set (handleGlobalQuery here p q).
      \<exists>d \<in> set (bluetoothDevices p).
        r = rankItem here d \<and> rank_score r = (if connected d then 0 else 1)"
  proof (cases "trigger q = []")
    case True
    then show ?thesis by (simp add: handleGlobalQuery_def)
  next
    case False
    show ?thesis
      unfolding handleGlobalQuery_eq [OF False] using score by auto
  qed
  show ?thesis using score res by simp
qed

theorem rankItem_score_witness:
  "rank_score (rankItem ''/plugin'' headset) = 0 \<and>
   rank_score (rankItem ''/plugin'' mouse) = 1 \<and>
   rank_score (rankItem ''/plugin'' headset) < rank_score (rankItem ''/plugin'' mouse)"
  using rankItem_score [of "''/plugin''" headset headset mouse]
    rankItem_score [of "''/plugin''" mouse headset mouse]
  by (simp add: mouse_def headset_def)

text \<open>
  C7. \<open>disconnect\<close> on a record that is not connected launches nothing and leaves the
  record as it is, and so does \<open>connect\<close> on a connected record; otherwise the call
  launches the one \<open>bluetoothctl\<close> command for the record's id and flips the flag.
\<close>

theorem disconnect_connect_noop_or_flip:
  "(\<not> connected d \<longrightarrow> disconnect d wd procs = (d, procs)) \<and>
   (connected d \<longrightarrow>
      disconnect d wd procs =
        (d\<lparr>connected := False\<rparr>, procs @ [([''bluetoothctl'', ''disconnect'', dev_id d], wd)])) \<and>
   (connected d \<longrightarrow> connect d wd procs = (d, procs)) \<and>
   (\<not> connected d \<longrightarrow>
      connect d wd procs =
        (d\<lparr>connected := True\<rparr>, procs @ [([''bluetoothctl'', ''connect'', dev_id d], wd)]))"
  by (simp add: disconnect_def connect_def runDetachedProcess_def)

theorem disconnect_connect_noop_or_flip_witness:
  "disconnect mouse ''/plugin'' [] = (mouse, []) \<and>
   connected (fst (connect mouse ''/plugin'' [])) \<and>
   snd (connect mouse ''/plugin'' []) = [([''bluetoothctl'', ''connect'', ''CC:DD''], ''/plugin'')] \<and>
   connect headset ''/plugin'' [] = (headset, []) \<and>
   \<not> connected (fst (disconnect headset ''/plugin'' [])) \<and>
   snd (disconnect headset ''/plugin'' []) =
     [([''bluetoothctl'', ''disconnect'', ''AA:BB''], ''/plugin'')]"
  using disconnect_connect_noop_or_flip [of mouse "''/plugin''" "[]"]
    disconnect_connect_noop_or_flip [of headset "''/plugin''" "[]"]
  by (simp add: mouse_def headset_def)

section \<open>Connecting and disconnecting through the controller\<close>

text \<open>
  An argument that is neither a string nor a device record makes \<open>connectDevice\<close> and
  \<open>disconnectDevice\<close> raise TypeError; with a string or a device record they return.
\<close>

lemma connectDevice_TypeError_only:
  "connectDevice self (IsOther v) procs = Inl TypeError \<and>
   disconnectDevice self (IsOther v) procs = Inl TypeError \<and>
   ((connectDevice self arg procs = Inl e) = ((\<exists>w. arg = IsOther w) \<and> e = TypeError)) \<and>
   ((disconnectDevice self arg procs = Inl e) = ((\<exists>w. arg = IsOther w) \<and> e = TypeError))"
  by (cases arg) (auto simp: connectDevice_def disconnectDevice_def split: prod.splits)

lemma connectDevice_TypeError_only_examples:
  "connectDevice (bluetoothControl example_plugin) (IsOther (PyInt 7)) [] = Inl TypeError \<and>
   disconnectDevice (bluetoothControl example_plugin) (IsOther PyNone) [] = Inl TypeError \<and>
   connectDevice (bluetoothControl example_plugin) (IsStr ''AA:BB'') [] \<noteq> Inl TypeError \<and>
   disconnectDevice (bluetoothControl example_plugin) (IsDevice headset) [] \<noteq> Inl TypeError"
  using connectDevice_TypeError_only
      [of "bluetoothControl example_plugin" "PyInt 7" "[]" "IsStr ''AA:BB''" TypeError]
    connectDevice_TypeError_only
      [of "bluetoothControl example_plugin" PyNone "[]" "IsDevice headset" TypeError]
  by simp

text \<open>
  C9. With a raw id string both operations always launch the command, whatever any
  cached record says; the check of the cached flag is made only for a device record,
  where a record already in the requested state launches nothing.
\<close>

theorem raw_id_always_launches:
  "connectDevice self (IsStr s) procs =
     Inr (IsStr s, procs @ [([''bluetoothctl'', ''connect'', s], currentWorkingDir self)]) \<and>
   disconnectDevice self (IsStr s) procs =
     Inr (IsStr s, procs @ [([''bluetoothctl'', ''disconnect'', s], currentWorkingDir self)]) \<and>
   connectDevice self (IsDevice (d\<lparr>connected := True\<rparr>)) procs =
     Inr (IsDevice (d\<lparr>connected := True\<rparr>), procs) \<and>
   disconnectDevice self (IsDevice (d\<lparr>connected := False\<rparr>)) procs =
     Inr (IsDevice (d\<lparr>connected := False\<rparr>), procs)"
  by (simp add: connectDevice_def disconnectDevice_def connect_def disconnect_def
        runDetachedProcess_def)

theorem raw_id_always_launches_witness:
  "connectDevice (bluetoothControl example_plugin) (IsStr ''AA:BB'') [] =
     Inr (IsStr ''AA:BB'', [([''bluetoothctl'', ''connect'', ''AA:BB''], ''/plugin'')]) \<and>
   connectDevice (bluetoothControl example_plugin) (IsDevice headset) [] =
     Inr (IsDevice headset, [])"
  using raw_id_always_launches [of "bluetoothControl example_plugin" "''AA:BB''" "[]" headset]
  by (simp add: example_plugin_def headset_def)

section \<open>Answering a query\<close>

text \<open>
  C2. With an active trigger: when the query is empty after trimming, the handler
  returns one result per cached device, in order, with the same ids; when it is not
  empty, every result is the ranked item of a cached device whose lowercased name has
  the trimmed, lowercased query as a substring.
\<close>

theorem handleGlobalQuery_matches:
  assumes "trigger q \<noteq> []"
  shows "(strip (query_string q) = [] \<longrightarrow>
            handleGlobalQuery here p q = map (rankItem here) (bluetoothDevices p) \<and>
            map (\<lambda>r. item_id (rank_item r)) (handleGlobalQuery here p q) =
              map dev_id (bluetoothDevices p)) \<and>
         (strip (query_string q) \<noteq> [] \<longrightarrow>
            (\<forall>r \<in> set (handleGlobalQuery here p q).
               \<exists>d \<in> set (bluetoothDevices p).
                 r = rankItem here d \<and>
                 (\<exists>u v. lower (name d) = u @ lower (strip (query_string q)) @ v)))"
proof (intro conjI impI)
  assume e: "strip (query_string q) = []"
  show all: "handleGlobalQuery here p q = map (rankItem here) (bluetoothDevices p)"
    by (simp add: handleGlobalQuery_eq [OF assms] e)
  show "map (\<lambda>r. item_id (rank_item r)) (handleGlobalQuery here p q) =
          map dev_id (bluetoothDevices p)"
    by (simp add: all item_id_rankItem)
next
  assume ne: "strip (query_string q) \<noteq> []"
  show "\<forall>r \<in> set (handleGlobalQuery here p q).
          \<exists>d \<in> set (bluetoothDevices p).
            r = rankItem here d \<and>
            (\<exists>u v. lower (name d) = u @ lower (strip (query_string q)) @ v)"
    unfolding handleGlobalQuery_eq [OF assms] using ne contains_iff by auto
qed

theorem handleGlobalQuery_matches_witness:
  "map (\<lambda>r. item_id (rank_item r))
     (handleGlobalQuery ''/plugin'' example_plugin \<lparr>trigger = ''bt '', query_string = ''  ''\<rparr>) =
     [''AA:BB'', ''CC:DD'', ''EE:FF''] \<and>
   rankItem ''/plugin'' mouse \<in>
     set (handleGlobalQuery ''/plugin'' example_plugin \<lparr>trigger = ''bt '', query_string = '' BA ''\<rparr>) \<and>
   (\<exists>d \<in> set (bluetoothDevices example_plugin).
      rankItem ''/plugin'' mouse = rankItem ''/plugin'' d \<and>
      (\<exists>u v. lower (name d) = u @ ''ba'' @ v))"
proof -
  let ?q0 = "\<lparr>trigger = ''bt '', query_string = ''  ''\<rparr>"
  let ?q1 = "\<lparr>trigger = ''bt '', query_string = '' BA ''\<rparr>"
  have t0: "trigger ?q0 \<noteq> []" and t1: "trigger ?q1 \<noteq> []" by simp_all
  have s0: "strip ''  '' = []" by code_simp
  have s1: "lower (strip '' BA '') = ''ba''" by code_simp
  have ne: "strip '' BA '' \<noteq> []" by code_simp
  have c1: "contains ''ba'' (lower (name mouse))" by code_simp
  have ds: "map dev_id (bluetoothDevices example_plugin) = [''AA:BB'', ''CC:DD'', ''EE:FF'']"
    by (simp add: example_plugin_def headset_def mouse_def keyboard_def)
  have mem: "rankItem ''/plugin'' mouse \<in> set (handleGlobalQuery ''/plugin'' example_plugin ?q1)"
    unfolding handleGlobalQuery_eq [OF t1]
    by (simp add: example_plugin_def s1 ne c1)
  have m0: "map (\<lambda>r. item_id (rank_item r)) (handleGlobalQuery ''/plugin'' example_plugin ?q0) =
              map dev_id (bluetoothDevices example_plugin)"
    using handleGlobalQuery_matches [OF t0, of "''/plugin''" example_plugin] s0
    by (simp add: item_id_rankItem)
  have m1: "\<forall>r \<in> set (handleGlobalQuery ''/plugin'' example_plugin ?q1).
               \<exists>d \<in> set (bluetoothDevices example_plugin).
                 r = rankItem ''/plugin'' d \<and> (\<exists>u v. lower (name d) = u @ ''ba'' @ v)"
    using handleGlobalQuery_matches [OF t1, of "''/plugin''" example_plugin] ne s1 by simp
  show ?thesis using m0 ds mem m1 by simp
qed

text \<open>
  C3. With the empty trigger the handler returns no result, whatever the cache holds and
  whatever the query string is; with an active trigger and an empty query string it
  returns every cached device.
\<close>

theorem handleGlobalQuery_empty_trigger:
  "(trigger q = [] \<longrightarrow> handleGlobalQuery here p q = []) \<and>
   (trigger q \<noteq> [] \<and> query_string q = [] \<longrightarrow>
      handleGlobalQuery here p q = map (rankItem here) (bluetoothDevices p))"
proof (intro conjI impI)
  assume "trigger q = []"
  then show "handleGlobalQuery here p q = []"
    by (simp add: handleGlobalQuery_def)
next
  assume a: "trigger q \<noteq> [] \<and> query_string q = []"
  have "strip (query_string q) = []" using a by (simp add: strip_def)
  then show "handleGlobalQuery here p q = map (rankItem here) (bluetoothDevices p)"
    using a by (simp add: handleGlobalQuery_eq)
qed

theorem handleGlobalQuery_empty_trigger_witness:
  "handleGlobalQuery ''/plugin'' example_plugin \<lparr>trigger = [], query_string = ''foo''\<rparr> = [] \<and>
   handleGlobalQuery ''/plugin'' example_plugin \<lparr>trigger = ''bt '', query_string = []\<rparr> =
     [rankItem ''/plugin'' headset, rankItem ''/plugin'' mouse, rankItem ''/plugin'' keyboard]"
  using handleGlobalQuery_empty_trigger
      [of "\<lparr>trigger = [], query_string = ''foo''\<rparr>" "''/plugin''" example_plugin]
    handleGlobalQuery_empty_trigger
      [of "\<lparr>trigger = ''bt '', query_string = []\<rparr>" "''/plugin''" example_plugin]
  by (simp add: example_plugin_def)

section \<open>Reading the detail text of one device\<close>

lemma deviceInfo_raises:
  "l \<in> set (splitlines (info_stdout env ident)) \<Longrightarrow> CHR '':'' \<notin> set l \<Longrightarrow>
   deviceInfo env ident = Inl ValueError"
  by (simp add: deviceInfo_def deviceInfo_loop_raises)

lemma deviceInfo_returns:
  assumes "\<forall>l \<in> set (splitlines (info_stdout env ident)). CHR '':'' \<in> set l"
  shows "\<exists>d. deviceInfo env ident = Inr d \<and> dev_id d = ident \<and>
             connected d = last_connected False (splitlines (info_stdout env ident))"
proof -
  obtain nm' ic' where
    "deviceInfo_loop (splitlines (info_stdout env ident)) (''Bluetooth Device '' @ ident, False, None) =
       Inr (nm', last_connected False (splitlines (info_stdout env ident)), ic')"
    using deviceInfo_loop_connected [OF assms] by blast
  then show ?thesis by (simp add: deviceInfo_def)
qed

text \<open>
  C1. A detail text with a line that has no colon: the unpacking of the split raises
  ValueError and \<open>deviceInfo\<close> returns no record.
\<close>

theorem deviceInfo_line_without_separator_raises:
  "deviceInfo (tool_printing [] ''Name: Foo\<newline>bogus\<newline>'') ''AA:BB'' = Inl ValueError"
proof -
  have l: "''bogus'' \<in> set (splitlines ''Name: Foo\<newline>bogus\<newline>'')" by code_simp
  have c: "CHR '':'' \<notin> set ''bogus''" by simp
  show ?thesis
    using deviceInfo_raises [of "''bogus''" "tool_printing [] ''Name: Foo\<newline>bogus\<newline>''" "''AA:BB''"] l c
    by (simp add: tool_printing_def)
qed

text \<open>
  C4, as the code has it. When every line of the detail text has a colon, \<open>deviceInfo\<close>
  returns a record whose connected flag is what the last line with the key
  \<open>connected\<close> says (true exactly when its value is \<open>yes\<close>, in any letter case), and
  false when no line has that key.
\<close>

theorem deviceInfo_connected_last_line:
  assumes "\<forall>l \<in> set (splitlines (info_stdout env ident)). CHR '':'' \<in> set l"
  shows "\<exists>d. deviceInfo env ident = Inr d \<and>
             connected d = last_connected False (splitlines (info_stdout env ident)) \<and>
             ((\<forall>l \<in> set (splitlines (info_stdout env ident)). line_key l \<noteq> ''connected'') \<longrightarrow>
                \<not> connected d)"
proof -
  obtain d where d: "deviceInfo env ident = Inr d"
    "connected d = last_connected False (splitlines (info_stdout env ident))"
    using deviceInfo_returns [OF assms] by blast
  have "(\<forall>l \<in> set (splitlines (info_stdout env ident)). line_key l \<noteq> ''connected'') \<longrightarrow>
          \<not> last_connected False (splitlines (info_stdout env ident))"
    by (simp add: last_connected_def filter_empty_conv [THEN iffD2])
  then show ?thesis using d by simp
qed

theorem deviceInfo_connected_last_line_witness:
  "(\<exists>d. deviceInfo (tool_printing [] ''Name: Foo\<newline>CONNECTED: Yes\<newline>Icon: audio-headset\<newline>'')
           ''AA:BB'' = Inr d \<and> connected d) \<and>
   (\<exists>d. deviceInfo (tool_printing [] ''Name: Foo\<newline>Connected: yes\<newline>Connected: no\<newline>'')
           ''AA:BB'' = Inr d \<and> \<not> connected d) \<and>
   (\<exists>d. deviceInfo (tool_printing [] ''Name: Foo\<newline>'') ''AA:BB'' = Inr d \<and> \<not> connected d)"
proof -
  let ?a = "''Name: Foo\<newline>CONNECTED: Yes\<newline>Icon: audio-headset\<newline>''"
  let ?b = "''Name: Foo\<newline>Connected: yes\<newline>Connected: no\<newline>''"
  let ?c = "''Name: Foo\<newline>''"
  have ha: "\<forall>l \<in> set (splitlines (info_stdout (tool_printing [] ?a) ''AA:BB'')). CHR '':'' \<in> set l"
    unfolding tool_printing_def by (simp del: set_simps) code_simp
  have hb: "\<forall>l \<in> set (splitlines (info_stdout (tool_printing [] ?b) ''AA:BB'')). CHR '':'' \<in> set l"
    unfolding tool_printing_def by (simp del: set_simps) code_simp
  have hc: "\<forall>l \<in> set (splitlines (info_stdout (tool_printing [] ?c) ''AA:BB'')). CHR '':'' \<in> set l"
    unfolding tool_printing_def by (simp del: set_simps) code_simp
  have va: "last_connected False (splitlines ?a)" by code_simp
  have vb: "\<not> last_connected False (splitlines ?b)" by code_simp
  have vc: "\<not> last_connected False (splitlines ?c)" by code_simp
  have a: "\<exists>d. deviceInfo (tool_printing [] ?a) ''AA:BB'' = Inr d \<and> connected d"
    using deviceInfo_connected_last_line [OF ha] va by (auto simp: tool_printing_def)
  have b: "\<exists>d. deviceInfo (tool_printing [] ?b) ''AA:BB'' = Inr d \<and> \<not> connected d"
    using deviceInfo_connected_last_line [OF hb] vb by (auto simp: tool_printing_def)
  have c: "\<exists>d. deviceInfo (tool_printing [] ?c) ''AA:BB'' = Inr d \<and> \<not> connected d"
    using deviceInfo_connected_last_line [OF hc] vc by (auto simp: tool_printing_def)
  show ?thesis using a b c by blast
qed

theorem connected_yes_overridden_counterexample:
  "''Connected: yes'' \<in> set (splitlines ''Connected: yes\<newline>Connected: no\<newline>'') \<and>
   line_key ''Connected: yes'' = ''connected'' \<and>
   line_value ''Connected: yes'' = ''yes'' \<and>
   deviceInfo (tool_printing [] ''Connected: yes\<newline>Connected: no\<newline>'') ''AA:BB'' =
     Inr \<lparr> dev_id = ''AA:BB'', name = ''Bluetooth Device AA:BB'', icon = None,
           connected = False \<rparr>"
proof -
  have 1: "''Connected: yes'' \<in> set (splitlines ''Connected: yes\<newline>Connected: no\<newline>'')"
    by code_simp
  have 2: "line_key ''Connected: yes'' = ''connected''" by code_simp
  have 3: "line_value ''Connected: yes'' = ''yes''" by code_simp
  have 4: "deviceInfo (tool_printing [] ''Connected: yes\<newline>Connected: no\<newline>'') ''AA:BB'' =
     Inr \<lparr> dev_id = ''AA:BB'', name = ''Bluetooth Device AA:BB'', icon = None,
           connected = False \<rparr>"
    unfolding tool_printing_def by code_simp
  show ?thesis using 1 2 3 4 by blast
qed

section \<open>Reading the listing\<close>

lemma splitlines_from_line:
  "\<forall>c \<in> set l. \<not> is_linebreak c \<Longrightarrow>
   splitlines_from cur (l @ CHR 0x0A # rest) = (cur @ l) # splitlines_from [] rest"
proof (induction l arbitrary: cur)
  case Nil
  have "is_linebreak (CHR 0x0A)" by (simp add: is_linebreak_def)
  then show ?case by simp
next
  case (Cons c l)
  have nb: "\<not> is_linebreak c" using Cons.prems by simp
  have "is_linebreak (CHR 0x0D)" by (simp add: is_linebreak_def)
  then have "c \<noteq> CHR 0x0D" using nb by auto
  then show ?case using nb Cons by simp
qed

lemma splitlines_listing_of:
  "\<forall>e \<in> set es. \<forall>c \<in> set (device_line e). \<not> is_linebreak c \<Longrightarrow>
   splitlines (listing_of es) = map device_line es"
proof (induction es)
  case Nil
  then show ?case by (simp add: splitlines_def listing_of_def)
next
  case (Cons e es)
  have e: "\<forall>c \<in> set (device_line e). \<not> is_linebreak c" using Cons.prems by simp
  have "splitlines (listing_of (e # es)) =
          splitlines_from [] (device_line e @ CHR 0x0A # listing_of es)"
    by (simp add: splitlines_def listing_of_def)
  also have "\<dots> = device_line e # splitlines (listing_of es)"
    using splitlines_from_line [OF e, of "[]" "listing_of es"] by (simp add: splitlines_def)
  finally show ?case using Cons by simp
qed

lemma takeWhile_upto_sep: "c \<notin> set xs \<Longrightarrow> takeWhile (\<lambda>x. x \<noteq> c) (xs @ c # ys) = xs"
  by (induction xs) auto

lemma dropWhile_upto_sep: "c \<notin> set xs \<Longrightarrow> dropWhile (\<lambda>x. x \<noteq> c) (xs @ c # ys) = c # ys"
  by (induction xs) auto

lemma unpack_device_line:
  assumes "CHR '' '' \<notin> set (fst e)"
  shows "unpack2 (split1 CHR '' '' (removeprefix ''Device '' (device_line e))) =
           Inr (fst e, snd e)"
proof -
  have rp: "removeprefix ''Device '' (device_line e) = fst e @ CHR '' '' # snd e"
    by (simp add: removeprefix_def device_line_def)
  show ?thesis
    unfolding rp
    by (simp add: split1_def unpack2_def takeWhile_upto_sep [OF assms]
          dropWhile_upto_sep [OF assms])
qed

lemma listDevices_loop_ids:
  "\<forall>e \<in> set es. CHR '' '' \<notin> set (fst e) \<Longrightarrow>
   \<forall>e \<in> set es. \<forall>l \<in> set (splitlines (info_stdout env (fst e))). CHR '':'' \<in> set l \<Longrightarrow>
   \<exists>ds. listDevices_loop env (map device_line es) acc = Inr (acc @ ds) \<and>
        map dev_id ds = map fst es"
proof (induction es arbitrary: acc)
  case Nil
  then show ?case by simp
next
  case (Cons e es)
  have u: "unpack2 (split1 CHR '' '' (removeprefix ''Device '' (device_line e))) =
             Inr (fst e, snd e)"
    using Cons.prems(1) by (simp add: unpack_device_line)
  obtain d where d: "deviceInfo env (fst e) = Inr d" "dev_id d = fst e"
    using deviceInfo_returns [of env "fst e"] Cons.prems(2) by auto
  obtain ds where ds: "listDevices_loop env (map device_line es) (acc @ [d]) = Inr ((acc @ [d]) @ ds)"
    "map dev_id ds = map fst es"
    using Cons.IH [of "acc @ [d]"] Cons.prems by auto
  have "listDevices_loop env (map device_line (e # es)) acc = Inr (acc @ (d # ds))"
    using u d ds by (simp add: case_prod_beta)
  moreover have "map dev_id (d # ds) = map fst (e # es)" using d ds by simp
  ultimately show ?case by blast
qed

lemma listDevices_ids_in_order:
  assumes "devices_stdout env = listing_of es"
    and "\<forall>e \<in> set es. CHR '' '' \<notin> set (fst e)"
    and "\<forall>e \<in> set es. \<forall>c \<in> set (device_line e). \<not> is_linebreak c"
    and "\<forall>e \<in> set es. \<forall>l \<in> set (splitlines (info_stdout env (fst e))). CHR '':'' \<in> set l"
  shows "\<exists>ds. listDevices env = Inr ds \<and> length ds = length es \<and> map dev_id ds = map fst es"
proof -
  obtain ds where ds: "listDevices_loop env (map device_line es) [] = Inr ([] @ ds)"
    "map dev_id ds = map fst es"
    using listDevices_loop_ids [OF assms(2) assms(4), of "[]"] by blast
  have "length ds = length es" using ds(2) map_eq_imp_length_eq by blast
  then show ?thesis
    using ds by (simp add: listDevices_def assms(1) splitlines_listing_of [OF assms(3)])
qed

lemma listDevices_empty: "devices_stdout env = [] \<Longrightarrow> listDevices env = Inr []"
  by (simp add: listDevices_def splitlines_def)

text \<open>
  C5. A listing of one well-formed line, for a device whose detail text has a line
  without a colon: \<open>deviceInfo\<close> raises ValueError inside the loop of \<open>listDevices\<close>,
  which produces no list.
\<close>

theorem listDevices_detail_without_separator_raises:
  "listDevices (tool_printing ''Device AA:BB Foo\<newline>'' ''Name: Foo\<newline>bogus\<newline>'') =
     Inl ValueError"
  unfolding tool_printing_def by code_simp

lemma listDevices_two_devices:
  "\<exists>ds. listDevices (tool_printing ''Device AA:BB Foo\<newline>Device CC:DD Bar Mouse\<newline>''
                      ''Name: Foo\<newline>Connected: yes\<newline>'') = Inr ds \<and>
        map dev_id ds = [''AA:BB'', ''CC:DD'']"
proof -
  let ?env = "tool_printing ''Device AA:BB Foo\<newline>Device CC:DD Bar Mouse\<newline>''
                ''Name: Foo\<newline>Connected: yes\<newline>''"
  let ?es = "[(''AA:BB'', ''Foo''), (''CC:DD'', ''Bar Mouse'')]"
  have 1: "devices_stdout ?env = listing_of ?es"
    by (simp add: tool_printing_def listing_of_def device_line_def)
  have 2: "\<forall>e \<in> set ?es. CHR '' '' \<notin> set (fst e)" by simp
  have 3: "\<forall>e \<in> set ?es. \<forall>c \<in> set (device_line e). \<not> is_linebreak c"
    by (simp add: device_line_def is_linebreak_def)
  have l: "splitlines ''Name: Foo\<newline>Connected: yes\<newline>'' = [''Name: Foo'', ''Connected: yes'']"
    by code_simp
  have 4: "\<forall>e \<in> set ?es. \<forall>l \<in> set (splitlines (info_stdout ?env (fst e))). CHR '':'' \<in> set l"
    by (simp add: tool_printing_def l)
  show ?thesis using listDevices_ids_in_order [OF 1 2 3 4] by auto
qed

section \<open>Errors that reach the caller\<close>

text \<open>
  C8. TypeError is not the only error that reaches a caller. \<open>connectDevice\<close> raises it
  for an argument that is neither a string nor a device record; and a refresh over a
  device whose detail text has a line without a colon leaves \<open>updateIndexItems\<close> with
  ValueError, the cache emptied.
\<close>

theorem updateIndexItems_raises_ValueError:
  "connectDevice (bluetoothControl example_plugin) (IsOther PyNone) [] = Inl TypeError \<and>
   updateIndexItems (tool_printing ''Device AA:BB Foo\<newline>'' ''Name: Foo\<newline>bogus\<newline>'')
     example_plugin =
     (Some ValueError, example_plugin\<lparr>bluetoothDevices := []\<rparr>)"
proof -
  have t: "connectDevice (bluetoothControl example_plugin) (IsOther PyNone) [] = Inl TypeError"
    by (simp add: connectDevice_def)
  have l: "listDevices (tool_printing ''Device AA:BB Foo\<newline>'' ''Name: Foo\<newline>bogus\<newline>'') =
             Inl ValueError"
    unfolding tool_printing_def by code_simp
  show ?thesis using t by (simp add: updateIndexItems_def l)
qed

end
